theory Spec2Isabelle
  imports Complex_Main
begin

section \<open>Values shared by the two notebooks\<close>

text \<open>
  The arrays of the notebooks hold floating-point numbers. The operations the notebook
  code itself applies to them are a comparison with the constant 0.5, an equality test
  against a boolean, and stores of NaN. All three are exact on floats, so a float is
  modelled by the number it denotes, with the three special values kept apart.
\<close>

datatype npfloat = Fin real | PInf | NInf | NaN

datatype py_error =
    IndexError
  | ZeroDivisionError
  | NameError string
  | LibraryError string

section \<open>The standard-interface notebook: threshold and accuracy cell\<close>

text \<open>
  \<^verbatim>\<open>preds = preds_prob > 0.5 # threshold\<close>

  The comparison is numpy's elementwise greater-than of a float array with a scalar. A NaN
  compares false with everything.
\<close>

fun np_gt :: "npfloat \<Rightarrow> real \<Rightarrow> bool" where
  "np_gt (Fin x) t = (t < x)"
| "np_gt PInf t = True"
| "np_gt NInf t = False"
| "np_gt NaN t = False"

definition threshold :: "npfloat list \<Rightarrow> bool list" where
  "threshold preds_prob = map (\<lambda>p. np_gt p (1/2)) preds_prob"

text \<open>
  \<^verbatim>\<open>labels[i] == preds[i]\<close> compares a float label with a boolean prediction: numpy reads
  \<open>True\<close> as 1 and \<open>False\<close> as 0, and a NaN or an infinity equals neither.
\<close>

fun np_eq_bool :: "npfloat \<Rightarrow> bool \<Rightarrow> bool" where
  "np_eq_bool (Fin x) b = (x = (if b then 1 else 0))"
| "np_eq_bool PInf b = False"
| "np_eq_bool NInf b = False"
| "np_eq_bool NaN b = False"

text \<open>
  \<^verbatim>\<open>
  correct = 0.
  for i in range(len(preds)):
      if (labels[i] == preds[i]):
          correct += 1.
  \<close>
  One pass of the body at index \<open>i\<close>. The index is below \<open>len(preds)\<close> by construction of
  the range; reading \<open>labels[i]\<close> past the end of \<open>labels\<close> raises IndexError.
\<close>

definition loop_body :: "npfloat list \<Rightarrow> bool list \<Rightarrow> nat \<Rightarrow> real \<Rightarrow> py_error + real" where
  "loop_body labels preds i correct =
     (if i < length labels then
        (if np_eq_bool (labels ! i) (preds ! i) then Inr (correct + 1) else Inr correct)
      else Inl IndexError)"

text \<open>The loop over the indices that \<open>range\<close> produced, stopping at the first exception.\<close>

fun accuracy_loop :: "npfloat list \<Rightarrow> bool list \<Rightarrow> nat list \<Rightarrow> real \<Rightarrow> py_error + real" where
  "accuracy_loop labels preds [] correct = Inr correct"
| "accuracy_loop labels preds (i # rest) correct =
     (case loop_body labels preds i correct of
        Inl e \<Rightarrow> Inl e
      | Inr correct' \<Rightarrow> accuracy_loop labels preds rest correct')"

text \<open>
  The error handed to the second \<open>print\<close> is computed in floating point. Python's
  float is the IEEE 754 binary64 format: the result of a division or a subtraction is
  the exact result rounded to the nearest number with a significand of 53 bits, a tie
  going to the even significand, with gradual underflow below 2 to the power -1022. A
  float is a rational number and is kept as the real it denotes. Counts below 2 to the
  power 53 are floats themselves, so \<open>correct\<close> and \<open>len(preds)\<close> need no rounding.
  Results of magnitude 2 to the power 1024 and above, which binary64 turns into
  infinities, do not arise here: the quotient of the cell is at most 1.

  \<open>bit_length n\<close> is the number of binary digits of \<open>n\<close>; \<open>exponent x\<close>, for a positive
  \<open>x\<close>, is the \<open>e\<close> with \<open>pow2 e \<le> x < pow2 (e + 1)\<close>, where \<open>pow2 e\<close> is 2 to the power
  \<open>e\<close>.
\<close>

function bit_length :: "int \<Rightarrow> nat" where
  "bit_length n = (if n \<le> 0 then 0 else Suc (bit_length (n div 2)))"
  by pat_completeness auto
termination
  by (relation "measure nat") auto

declare bit_length.simps [simp del]

definition exponent :: "real \<Rightarrow> int" where
  "exponent x =
     (if 1 \<le> x then int (bit_length \<lfloor>x\<rfloor>) - 1
      else - int (bit_length (\<lceil>1 / x\<rceil> - 1)))"

definition pow2 :: "int \<Rightarrow> real" where
  "pow2 k = (if 0 \<le> k then 2 ^ nat k else 1 / 2 ^ nat (- k))"

definition round_half_even :: "real \<Rightarrow> int" where
  "round_half_even x =
     (let f = \<lfloor>x\<rfloor>; d = x - of_int f in
      if d < 1/2 then f else if 1/2 < d then f + 1 else if even f then f else f + 1)"

definition binary64 :: "real \<Rightarrow> real" where
  "binary64 x =
     (if x = 0 then 0
      else let ulp = pow2 (max (exponent \<bar>x\<bar>) (- 1022) - 52)
           in sgn x * of_int (round_half_even (\<bar>x\<bar> / ulp)) * ulp)"

text \<open>Python's \<open>a / b\<close> and \<open>a - b\<close> on floats, for a divisor other than zero.\<close>

definition float_div :: "real \<Rightarrow> real \<Rightarrow> real" where
  "float_div a b = binary64 (a / b)"

definition float_sub :: "real \<Rightarrow> real \<Rightarrow> real" where
  "float_sub a b = binary64 (a - b)"

text \<open>
  \<^verbatim>\<open>
  print('Predicted correctly: {0}/{1}'.format(correct, len(preds)))
  print('Error: {0:.4f}'.format(1-correct/len(preds)))
  \<close>
  A printed line is kept as the values handed to \<open>format\<close>; the rounding of the second
  line to four decimals is a matter of the formatter and is not modelled. The cell's
  result is what it printed and the exception that ended it, if any. Dividing by
  \<open>len(preds) = 0\<close> raises ZeroDivisionError after the first line was printed.
\<close>

datatype printed = PredictedCorrectly real nat | Error real

definition accuracy_cell :: "npfloat list \<Rightarrow> npfloat list \<Rightarrow> printed list \<times> py_error option" where
  "accuracy_cell labels preds_prob =
     (let preds = threshold preds_prob in
      case accuracy_loop labels preds [0..<length preds] 0 of
        Inl e \<Rightarrow> ([], Some e)
      | Inr correct \<Rightarrow>
          (if length preds = 0
           then ([PredictedCorrectly correct (length preds)], Some ZeroDivisionError)
           else ([PredictedCorrectly correct (length preds),
                  Error (float_sub 1 (float_div correct (real (length preds))))], None)))"

text \<open>The number of indices at which label and prediction agree.\<close>

definition agreeing :: "npfloat list \<Rightarrow> bool list \<Rightarrow> nat list" where
  "agreeing labels preds = filter (\<lambda>i. np_eq_bool (labels ! i) (preds ! i)) [0..<length preds]"

section \<open>The missing-values notebook: arrays, generator and cells\<close>

text \<open>
  A two-dimensional numpy array is a list of rows. Arrays are objects: a variable holds a
  reference, and \<open>data_m[i, j] = v\<close> changes the object that \<open>data_m\<close> refers to. The
  store maps every reference to the array it denotes; \<open>fresh\<close> is the next unused one.
  numpy's global random generator is part of the state as well, and so is the list of
  calls made into xgboost and sklearn, each with the values of its arguments at the time
  of the call.
\<close>

type_synonym matrix = "npfloat list list"
type_synonym addr = nat

datatype pyval = PStr string | PInt int | PFloat real

type_synonym params = "(string \<times> pyval) list"

record dmatrix =
  dm_data :: matrix
  dm_label :: "int list"
  dm_missing :: "npfloat option"

datatype libcall =
    DMatrix matrix "int list" "npfloat option"
  | XgbCv params dmatrix nat nat
  | XGBClassifier params
  | CrossValScore params matrix "int list" nat string

record 'g world =
  gen :: 'g
  arrays :: "addr \<Rightarrow> matrix"
  fresh :: addr
  calls :: "libcall list"

text \<open>
  numpy's generator is not part of the repository. It is taken as a parameter:
  \<open>np_seed s\<close> is the generator state that \<open>np.random.seed(s)\<close> installs,
  \<open>np_rand g r c\<close> is the array and the next state that \<open>np.random.rand(r, c)\<close> gives in
  state \<open>g\<close>, and \<open>np_randint g high n\<close> those of \<open>np.random.randint(high, size=n)\<close>.
\<close>

record 'g generator =
  np_seed :: "nat \<Rightarrow> 'g"
  np_rand :: "'g \<Rightarrow> nat \<Rightarrow> nat \<Rightarrow> matrix \<times> 'g"
  np_randint :: "'g \<Rightarrow> int \<Rightarrow> nat \<Rightarrow> int list \<times> 'g"

text \<open>\<^verbatim>\<open>seed = 123\<close>\<close>

definition seed :: nat where
  "seed = 123"

text \<open>A new array object holding \<open>m\<close>; \<open>np.copy(a)\<close> is a new object with the contents of \<open>a\<close>.\<close>

definition new_array :: "matrix \<Rightarrow> 'g world \<Rightarrow> addr \<times> 'g world" where
  "new_array m w = (fresh w, w\<lparr>arrays := (arrays w)(fresh w := m), fresh := Suc (fresh w)\<rparr>)"

definition np_copy :: "addr \<Rightarrow> 'g world \<Rightarrow> addr \<times> 'g world" where
  "np_copy a w = new_array (arrays w a) w"

text \<open>
  \<open>a[i, j] = v\<close> with non-negative indices: an index outside the array raises IndexError
  and leaves the array as it was.
\<close>

definition set_entry :: "matrix \<Rightarrow> nat \<Rightarrow> nat \<Rightarrow> npfloat \<Rightarrow> matrix" where
  "set_entry m i j v = m[i := (m ! i)[j := v]]"

definition setitem :: "addr \<Rightarrow> nat \<times> nat \<Rightarrow> npfloat \<Rightarrow> 'g world \<Rightarrow> py_error + 'g world" where
  "setitem a ij v w =
     (let m = arrays w a; i = fst ij; j = snd ij in
      if i < length m \<and> j < length (m ! i)
      then Inr (w\<lparr>arrays := (arrays w)(a := set_entry m i j v)\<rparr>)
      else Inl IndexError)"

text \<open>Statements in sequence: the first exception ends the cell.\<close>

definition and_then :: "py_error + 'a \<Rightarrow> ('a \<Rightarrow> py_error + 'b) \<Rightarrow> py_error + 'b" where
  "and_then r f = (case r of Inl e \<Rightarrow> Inl e | Inr x \<Rightarrow> f x)"

text \<open>
  \<^verbatim>\<open>
  np.random.seed(seed)
  data_v = np.random.rand(10,5) # 10 entities, each contains 5 features
  \<close>
\<close>

definition create_valid :: "'g generator \<Rightarrow> 'g world \<Rightarrow> addr \<times> 'g world" where
  "create_valid R w =
     (let w1 = w\<lparr>gen := np_seed R seed\<rparr>;
          (m, g) = np_rand R (gen w1) 10 5
      in new_array m (w1\<lparr>gen := g\<rparr>))"

text \<open>
  \<^verbatim>\<open>
  data_m = np.copy(data_v)

  data_m[2, 3] = np.nan
  data_m[0, 1] = np.nan
  data_m[0, 2] = np.nan
  data_m[1, 0] = np.nan
  data_m[4, 4] = np.nan
  data_m[7, 2] = np.nan
  data_m[9, 1] = np.nan
  \<close>
\<close>

definition add_missing :: "addr \<Rightarrow> 'g world \<Rightarrow> py_error + (addr \<times> 'g world)" where
  "add_missing data_v w =
     (let (data_m, w0) = np_copy data_v w in
      and_then (setitem data_m (2, 3) NaN w0) (\<lambda>w1.
      and_then (setitem data_m (0, 1) NaN w1) (\<lambda>w2.
      and_then (setitem data_m (0, 2) NaN w2) (\<lambda>w3.
      and_then (setitem data_m (1, 0) NaN w3) (\<lambda>w4.
      and_then (setitem data_m (4, 4) NaN w4) (\<lambda>w5.
      and_then (setitem data_m (7, 2) NaN w5) (\<lambda>w6.
      and_then (setitem data_m (9, 1) NaN w6) (\<lambda>w7.
      Inr (data_m, w7)))))))))"

text \<open>
  \<^verbatim>\<open>
  np.random.seed(seed)
  label = np.random.randint(2, size=10) # binary target
  \<close>
\<close>

definition make_label :: "'g generator \<Rightarrow> 'g world \<Rightarrow> int list \<times> 'g world" where
  "make_label R w =
     (let w1 = w\<lparr>gen := np_seed R seed\<rparr>;
          (l, g) = np_randint R (gen w1) 2 10
      in (l, w1\<lparr>gen := g\<rparr>))"

text \<open>The data preparation: the three cells above, in the notebook's order.\<close>

record prepared =
  data_v :: addr
  data_m :: addr
  label :: "int list"

definition prepare_data :: "'g generator \<Rightarrow> 'g world \<Rightarrow> py_error + (prepared \<times> 'g world)" where
  "prepare_data R w =
     (let (dv, w1) = create_valid R w in
      and_then (add_missing dv w1) (\<lambda>(dm, w2).
      let (l, w3) = make_label R w2 in
      Inr (\<lparr>data_v = dv, data_m = dm, label = l\<rparr>, w3)))"

text \<open>
  A call into xgboost or sklearn is recorded with its arguments; arrays are recorded by
  their contents at the time of the call. The model follows the run in which every
  library call returns, as in the notebook's recorded outputs.
\<close>

definition lib_call :: "libcall \<Rightarrow> 'g world \<Rightarrow> 'g world" where
  "lib_call c w = w\<lparr>calls := calls w @ [c]\<rparr>"

text \<open>
  \<^verbatim>\<open>
  params = {
      'objective':'binary:logistic',
      'max_depth':1,
      'silent':1,
      'eta':0.5
  }

  num_rounds = 5
  \<close>
\<close>

definition native_params :: params where
  "native_params =
     [(''objective'', PStr ''binary:logistic''),
      (''max_depth'', PInt 1),
      (''silent'', PInt 1),
      (''eta'', PFloat (1/2))]"

definition num_rounds :: nat where
  "num_rounds = 5"

text \<open>
  \<^verbatim>\<open>
  params = {
      'objective': 'binary:logistic',
      'max_depth': 1,
      'learning_rate': 0.5,
      'silent': 1.0,
      'n_estimators': 5
  }
  \<close>
\<close>

definition sklearn_params :: params where
  "sklearn_params =
     [(''objective'', PStr ''binary:logistic''),
      (''max_depth'', PInt 1),
      (''learning_rate'', PFloat (1/2)),
      (''silent'', PFloat 1),
      (''n_estimators'', PInt 5)]"

text \<open>
  \<^verbatim>\<open>
  dtrain_v = xgb.DMatrix(data_v, label=label)
  xgb.cv(params, dtrain_v, num_rounds, seed=seed)
  dtrain_m = xgb.DMatrix(data_m, label=label, missing=np.nan)
  xgb.cv(params, dtrain_m, num_rounds, seed=seed)
  \<close>
\<close>

definition native_interface :: "prepared \<Rightarrow> 'g world \<Rightarrow> 'g world" where
  "native_interface p w =
     (let w1 = lib_call (DMatrix (arrays w (data_v p)) (label p) None) w;
          dtrain_v = \<lparr>dm_data = arrays w (data_v p), dm_label = label p, dm_missing = None\<rparr>;
          w2 = lib_call (XgbCv native_params dtrain_v num_rounds seed) w1;
          w3 = lib_call (DMatrix (arrays w2 (data_m p)) (label p) (Some NaN)) w2;
          dtrain_m = \<lparr>dm_data = arrays w2 (data_m p), dm_label = label p, dm_missing = Some NaN\<rparr>
      in lib_call (XgbCv native_params dtrain_m num_rounds seed) w3)"

text \<open>
  \<^verbatim>\<open>
  clf = XGBClassifier(**params)
  cross_val_score(clf, data_v, label, cv=2, scoring='accuracy')
  cross_val_score(clf, data_m, label, cv=2, scoring='accuracy')
  \<close>
\<close>

definition sklearn_wrapper :: "prepared \<Rightarrow> 'g world \<Rightarrow> 'g world" where
  "sklearn_wrapper p w =
     (let w1 = lib_call (XGBClassifier sklearn_params) w;
          w2 = lib_call (CrossValScore sklearn_params (arrays w1 (data_v p)) (label p) 2 ''accuracy'') w1
      in lib_call (CrossValScore sklearn_params (arrays w2 (data_m p)) (label p) 2 ''accuracy'') w2)"

definition missing_values_notebook :: "'g generator \<Rightarrow> 'g world \<Rightarrow> py_error + (prepared \<times> 'g world)" where
  "missing_values_notebook R w =
     and_then (prepare_data R w) (\<lambda>(p, w1).
       Inr (p, sklearn_wrapper p (native_interface p w1)))"

text \<open>The positions of an array that hold NaN, row by row.\<close>

definition is_nan :: "npfloat \<Rightarrow> bool" where
  "is_nan x = (case x of NaN \<Rightarrow> True | _ \<Rightarrow> False)"

definition nan_positions :: "matrix \<Rightarrow> (nat \<times> nat) list" where
  "nan_positions m =
     concat (map (\<lambda>i. map (\<lambda>j. (i, j)) (filter (\<lambda>j. is_nan (m ! i ! j)) [0..<length (m ! i)]))
                 [0..<length m])"

text \<open>An array of \<open>r\<close> rows and \<open>c\<close> columns whose entries are all finite numbers.\<close>

definition is_finite :: "npfloat \<Rightarrow> bool" where
  "is_finite x = (case x of Fin _ \<Rightarrow> True | _ \<Rightarrow> False)"

definition valid_array :: "nat \<Rightarrow> nat \<Rightarrow> matrix \<Rightarrow> bool" where
  "valid_array r c m =
     (length m = r \<and> list_all (\<lambda>row. length row = c \<and> list_all is_finite row) m)"

text \<open>
  The arrays that the notebook's recorded outputs show for \<open>data_v\<close> and \<open>label\<close>, and a
  generator that replays them; they serve as concrete inputs.
\<close>

definition printed_data_v :: matrix where
  "printed_data_v =
     [[Fin 0.69646919, Fin 0.28613933, Fin 0.22685145, Fin 0.55131477, Fin 0.71946897],
      [Fin 0.42310646, Fin 0.9807642, Fin 0.68482974, Fin 0.4809319, Fin 0.39211752],
      [Fin 0.34317802, Fin 0.72904971, Fin 0.43857224, Fin 0.0596779, Fin 0.39804426],
      [Fin 0.73799541, Fin 0.18249173, Fin 0.17545176, Fin 0.53155137, Fin 0.53182759],
      [Fin 0.63440096, Fin 0.84943179, Fin 0.72445532, Fin 0.61102351, Fin 0.72244338],
      [Fin 0.32295891, Fin 0.36178866, Fin 0.22826323, Fin 0.29371405, Fin 0.63097612],
      [Fin 0.09210494, Fin 0.43370117, Fin 0.43086276, Fin 0.4936851, Fin 0.42583029],
      [Fin 0.31226122, Fin 0.42635131, Fin 0.89338916, Fin 0.94416002, Fin 0.50183668],
      [Fin 0.62395295, Fin 0.1156184, Fin 0.31728548, Fin 0.41482621, Fin 0.86630916],
      [Fin 0.25045537, Fin 0.48303426, Fin 0.98555979, Fin 0.51948512, Fin 0.61289453]]"

definition printed_label :: "int list" where
  "printed_label = [0, 1, 0, 0, 0, 0, 0, 1, 1, 0]"

definition replay :: "nat generator" where
  "replay = \<lparr>np_seed = (\<lambda>s. s),
             np_rand = (\<lambda>g r c. (take r (map (take c) printed_data_v), Suc g)),
             np_randint = (\<lambda>g high n. (take n printed_label, Suc g))\<rparr>"

definition empty_world :: "nat \<Rightarrow> nat world" where
  "empty_world g = \<lparr>gen = g, arrays = (\<lambda>a. []), fresh = 0, calls = []\<rparr>"

text \<open>The seven positions that the cell assigns, in the order of its statements.\<close>

definition assigned :: "(nat \<times> nat) list" where
  "assigned = [(2, 3), (0, 1), (0, 2), (1, 0), (4, 4), (7, 2), (9, 1)]"

text \<open>The array with NaN stored at each of the seven positions.\<close>

definition with_nans :: "matrix \<Rightarrow> matrix" where
  "with_nans m = fold (\<lambda>ij m'. set_entry m' (fst ij) (snd ij) NaN) assigned m"

text \<open>
  What a run of the data preparation produces: the exception, or the contents of
  \<open>data_v\<close>, \<open>data_m\<close> and \<open>label\<close>.
\<close>

definition observed :: "py_error + (prepared \<times> 'g world) \<Rightarrow> py_error + (matrix \<times> matrix \<times> int list)" where
  "observed r =
     (case r of
        Inl e \<Rightarrow> Inl e
      | Inr (p, w) \<Rightarrow> Inr (arrays w (data_v p), arrays w (data_m p), label p))"

text \<open>All seven positions lie inside the array.\<close>

definition in_range :: "matrix \<Rightarrow> bool" where
  "in_range m = list_all (\<lambda>ij. fst ij < length m \<and> snd ij < length (m ! fst ij)) assigned"

text \<open>A sequence of stores of one value into one array.\<close>

fun setitems :: "addr \<Rightarrow> (nat \<times> nat) list \<Rightarrow> npfloat \<Rightarrow> 'g world \<Rightarrow> py_error + 'g world" where
  "setitems a [] v w = Inr w"
| "setitems a (p # ps) v w = and_then (setitem a p v w) (setitems a ps v)"

section \<open>The code cells of the two notebooks\<close>

text \<open>
  Some statements of the specification are about the text of the notebooks: which calls
  they contain, whether a statement sits inside an exception handler, whether a cell has
  a loop of its own. For these the code cells are kept as data, in the shape of Python's
  grammar: expressions, simple statements, and compound statements with their blocks.
  Comments are dropped. A keyword argument \<open>k=v\<close> is the argument \<open>Kw k v\<close>, the
  argument \<open>**d\<close> is \<open>StarStar d\<close>, and an entry \<open>k: v\<close> of a dictionary display is
  \<open>Item k v\<close>.
\<close>

datatype binop = Add | Sub | Div

datatype cmpop = Gt | Eq

datatype expr =
    Name string
  | IntLit int
  | FloatLit real
  | StrLit string
  | Attr expr string
  | Call expr "expr list"
  | Kw string expr
  | StarStar expr
  | Item expr expr
  | Dict "expr list"
  | ListE "expr list"
  | Tuple "expr list"
  | Subscript expr expr
  | Compare expr cmpop expr
  | BinOp expr binop expr

datatype simple_stmt =
    Import string string
  | FromImport string string
  | Assign expr expr
  | AugAssign expr binop expr
  | ExprStmt expr
  | Print expr

datatype stmt =
    Simple simple_stmt
  | For string expr "stmt list"
  | IfElse expr "stmt list" "stmt list"
  | TryExcept "stmt list" "stmt list"

type_synonym cell = "stmt list"
type_synonym notebook = "cell list"

text \<open>
  The cells of the standard-interface notebook that the statements below single out:
  \<^verbatim>\<open>bst = xgb.train(params, dtrain, num_rounds)\<close>, the prediction cell
  \<^verbatim>\<open>preds_prob = bst.predict(dtest)\<close> followed by the display of \<open>preds_prob\<close>, and the
  accuracy cell.
\<close>

definition train_code :: cell where
  "train_code =
     [Simple (Assign (Name ''bst'')
        (Call (Attr (Name ''xgb'') ''train'') [Name ''params'', Name ''dtrain'', Name ''num_rounds'']))]"

definition predict_code :: cell where
  "predict_code =
     [Simple (Assign (Name ''preds_prob'') (Call (Attr (Name ''bst'') ''predict'') [Name ''dtest''])),
      Simple (ExprStmt (Name ''preds_prob''))]"

definition accuracy_code :: cell where
  "accuracy_code =
     [Simple (Assign (Name ''labels'') (Call (Attr (Name ''dtest'') ''get_label'') [])),
      Simple (Assign (Name ''preds'') (Compare (Name ''preds_prob'') Gt (FloatLit 0.5))),
      Simple (Assign (Name ''correct'') (FloatLit 0)),
      For ''i'' (Call (Name ''range'') [Call (Name ''len'') [Name ''preds'']])
        [IfElse (Compare (Subscript (Name ''labels'') (Name ''i'')) Eq
                     (Subscript (Name ''preds'') (Name ''i'')))
           [Simple (AugAssign (Name ''correct'') Add (FloatLit 1))]
           []],
      Simple (Print (Call (Attr (StrLit ''Predicted correctly: {0}/{1}'') ''format'')
        [Name ''correct'', Call (Name ''len'') [Name ''preds'']])),
      Simple (Print (Call (Attr (StrLit ''Error: {0:.4f}'') ''format'')
        [BinOp (IntLit 1) Sub
           (BinOp (Name ''correct'') Div (Call (Name ''len'') [Name ''preds'']))]))]"

text \<open>
  The code cells of the standard-interface notebook, in the order of the file. The last
  cell is empty.
\<close>

definition standard_interface :: notebook where
  "standard_interface =
     [[Simple (Import ''numpy'' ''np''),
       Simple (Import ''xgboost'' ''xgb'')],
      [Simple (Assign (Name ''dtrain'')
         (Call (Attr (Name ''xgb'') ''DMatrix'') [StrLit ''../data/agaricus.txt.train''])),
       Simple (Assign (Name ''dtest'')
         (Call (Attr (Name ''xgb'') ''DMatrix'') [StrLit ''../data/agaricus.txt.test'']))],
      [Simple (ExprStmt (Attr (Name ''dtrain'') ''feature_names''))],
      [Simple (Print (Call (Attr (StrLit ''Train dataset contains {0} rows and {1} columns'') ''format'')
         [Call (Attr (Name ''dtrain'') ''num_row'') [], Call (Attr (Name ''dtrain'') ''num_col'') []])),
       Simple (Print (Call (Attr (StrLit ''Test dataset contains {0} rows and {1} columns'') ''format'')
         [Call (Attr (Name ''dtest'') ''num_row'') [], Call (Attr (Name ''dtest'') ''num_col'') []]))],
      [Simple (Print (StrLit ''Train possible labels: '')),
       Simple (Print (Call (Attr (Name ''np'') ''unique'')
         [Call (Attr (Name ''dtrain'') ''get_label'') []])),
       Simple (Print (StrLit ''\<newline>Test possible labels: '')),
       Simple (Print (Call (Attr (Name ''np'') ''unique'')
         [Call (Attr (Name ''dtest'') ''get_label'') []]))],
      [Simple (Assign (Name ''params'')
         (Dict [Item (StrLit ''objective'') (StrLit ''binary:logistic''),
                Item (StrLit ''max_depth'') (IntLit 2),
                Item (StrLit ''silent'') (IntLit 1),
                Item (StrLit ''eta'') (IntLit 1)])),
       Simple (Assign (Name ''num_rounds'') (IntLit 5))],
      train_code,
      [Simple (Assign (Name ''watchlist'')
         (ListE [Tuple [Name ''dtest'', StrLit ''test''], Tuple [Name ''dtrain'', StrLit ''train'']])),
       Simple (Assign (Name ''bst'')
         (Call (Attr (Name ''xgb'') ''train'')
            [Name ''params'', Name ''dtrain'', Name ''num_rounds'', Name ''watchlist'']))],
      predict_code,
      accuracy_code,
      []]"

text \<open>
  \<^verbatim>\<open>data_m[i, j] = np.nan\<close>
\<close>

definition nan_store :: "int \<Rightarrow> int \<Rightarrow> stmt" where
  "nan_store i j =
     Simple (Assign (Subscript (Name ''data_m'') (Tuple [IntLit i, IntLit j]))
                    (Attr (Name ''np'') ''nan''))"

text \<open>
  The code cells of the missing-values notebook, in the order of the file.
\<close>

definition missing_values :: notebook where
  "missing_values =
     [[Simple (Import ''numpy'' ''np''),
       Simple (Import ''xgboost'' ''xgb''),
       Simple (FromImport ''xgboost.sklearn'' ''XGBClassifier''),
       Simple (FromImport ''sklearn.cross_validation'' ''cross_val_score''),
       Simple (Assign (Name ''seed'') (IntLit 123))],
      [Simple (ExprStmt (Call (Attr (Attr (Name ''np'') ''random'') ''seed'') [Name ''seed''])),
       Simple (Assign (Name ''data_v'')
         (Call (Attr (Attr (Name ''np'') ''random'') ''rand'') [IntLit 10, IntLit 5])),
       Simple (ExprStmt (Name ''data_v''))],
      [Simple (Assign (Name ''data_m'') (Call (Attr (Name ''np'') ''copy'') [Name ''data_v''])),
       nan_store 2 3,
       nan_store 0 1,
       nan_store 0 2,
       nan_store 1 0,
       nan_store 4 4,
       nan_store 7 2,
       nan_store 9 1,
       Simple (ExprStmt (Name ''data_m''))],
      [Simple (ExprStmt (Call (Attr (Attr (Name ''np'') ''random'') ''seed'') [Name ''seed''])),
       Simple (Assign (Name ''label'')
         (Call (Attr (Attr (Name ''np'') ''random'') ''randint'') [IntLit 2, Kw ''size'' (IntLit 10)])),
       Simple (ExprStmt (Name ''label''))],
      [Simple (Assign (Name ''params'')
         (Dict [Item (StrLit ''objective'') (StrLit ''binary:logistic''),
                Item (StrLit ''max_depth'') (IntLit 1),
                Item (StrLit ''silent'') (IntLit 1),
                Item (StrLit ''eta'') (FloatLit 0.5)])),
       Simple (Assign (Name ''num_rounds'') (IntLit 5))],
      [Simple (Assign (Name ''dtrain_v'')
         (Call (Attr (Name ''xgb'') ''DMatrix'') [Name ''data_v'', Kw ''label'' (Name ''label'')]))],
      [Simple (ExprStmt (Call (Attr (Name ''xgb'') ''cv'')
         [Name ''params'', Name ''dtrain_v'', Name ''num_rounds'', Kw ''seed'' (Name ''seed'')]))],
      [Simple (Assign (Name ''dtrain_m'')
         (Call (Attr (Name ''xgb'') ''DMatrix'')
            [Name ''data_m'', Kw ''label'' (Name ''label''), Kw ''missing'' (Attr (Name ''np'') ''nan'')]))],
      [Simple (ExprStmt (Call (Attr (Name ''xgb'') ''cv'')
         [Name ''params'', Name ''dtrain_m'', Name ''num_rounds'', Kw ''seed'' (Name ''seed'')]))],
      [Simple (Assign (Name ''params'')
         (Dict [Item (StrLit ''objective'') (StrLit ''binary:logistic''),
                Item (StrLit ''max_depth'') (IntLit 1),
                Item (StrLit ''learning_rate'') (FloatLit 0.5),
                Item (StrLit ''silent'') (FloatLit 1.0),
                Item (StrLit ''n_estimators'') (IntLit 5)]))],
      [Simple (Assign (Name ''clf'') (Call (Name ''XGBClassifier'') [StarStar (Name ''params'')])),
       Simple (ExprStmt (Name ''clf''))],
      [Simple (ExprStmt (Call (Name ''cross_val_score'')
         [Name ''clf'', Name ''data_v'', Name ''label'', Kw ''cv'' (IntLit 2),
          Kw ''scoring'' (StrLit ''accuracy'')]))],
      [Simple (ExprStmt (Call (Name ''cross_val_score'')
         [Name ''clf'', Name ''data_m'', Name ''label'', Kw ''cv'' (IntLit 2),
          Kw ''scoring'' (StrLit ''accuracy'')]))]]"

section \<open>What the text of a cell contains\<close>

text \<open>
  The name under which an operation is known: the dotted path of a called function
  (\<open>xgb.train\<close>, \<open>bst.predict\<close>), with \<open>str\<close> for a string literal, as in
  \<open>'...'.format\<close>.
\<close>

fun dotted :: "expr \<Rightarrow> string" where
  "dotted (Name x) = x"
| "dotted (Attr e a) = dotted e @ ''.'' @ a"
| "dotted (StrLit s) = ''str''"
| "dotted (Call f args) = dotted f @ ''()''"
| "dotted e = ''_''"

definition binop_name :: "binop \<Rightarrow> string" where
  "binop_name b = (case b of Add \<Rightarrow> ''+'' | Sub \<Rightarrow> ''-'' | Div \<Rightarrow> ''/'')"

definition cmpop_name :: "cmpop \<Rightarrow> string" where
  "cmpop_name c = (case c of Gt \<Rightarrow> ''>'' | Eq \<Rightarrow> ''=='')"

text \<open>
  The call expressions of an expression, of a statement, of a cell and of a notebook,
  innermost first.
\<close>

fun call_nodes :: "expr \<Rightarrow> expr list"
  and call_nodes_list :: "expr list \<Rightarrow> expr list" where
  "call_nodes (Name x) = []"
| "call_nodes (IntLit n) = []"
| "call_nodes (FloatLit x) = []"
| "call_nodes (StrLit s) = []"
| "call_nodes (Attr e a) = call_nodes e"
| "call_nodes (Call f args) = call_nodes_list (f # args) @ [Call f args]"
| "call_nodes (Kw k e) = call_nodes e"
| "call_nodes (StarStar e) = call_nodes e"
| "call_nodes (Item k v) = call_nodes k @ call_nodes v"
| "call_nodes (Dict items) = call_nodes_list items"
| "call_nodes (ListE es) = call_nodes_list es"
| "call_nodes (Tuple es) = call_nodes_list es"
| "call_nodes (Subscript e i) = call_nodes e @ call_nodes i"
| "call_nodes (Compare a c b) = call_nodes a @ call_nodes b"
| "call_nodes (BinOp a b c) = call_nodes a @ call_nodes c"
| "call_nodes_list [] = []"
| "call_nodes_list (e # es) = call_nodes e @ call_nodes_list es"

fun calls_simple :: "simple_stmt \<Rightarrow> expr list" where
  "calls_simple (Import m a) = []"
| "calls_simple (FromImport m x) = []"
| "calls_simple (Assign target v) = call_nodes v @ call_nodes target"
| "calls_simple (AugAssign target b v) = call_nodes target @ call_nodes v"
| "calls_simple (ExprStmt e) = call_nodes e"
| "calls_simple (Print e) = call_nodes e"

fun calls_stmt :: "stmt \<Rightarrow> expr list"
  and calls_block :: "stmt list \<Rightarrow> expr list" where
  "calls_stmt (Simple s) = calls_simple s"
| "calls_stmt (For x it body) = call_nodes it @ calls_block body"
| "calls_stmt (IfElse c yes no) = call_nodes c @ calls_block yes @ calls_block no"
| "calls_stmt (TryExcept body handler) = calls_block body @ calls_block handler"
| "calls_block [] = []"
| "calls_block (s # ss) = calls_stmt s @ calls_block ss"

definition calls_notebook :: "notebook \<Rightarrow> expr list" where
  "calls_notebook nb = concat (map calls_block nb)"

fun callee :: "expr \<Rightarrow> string" where
  "callee (Call f args) = dotted f"
| "callee e = dotted e"

definition called :: "notebook \<Rightarrow> string list" where
  "called nb = map callee (calls_notebook nb)"

text \<open>
  The names to which a statement assigns a dictionary display.
\<close>

fun dict_assigned :: "stmt \<Rightarrow> string list" where
  "dict_assigned (Simple (Assign (Name x) (Dict items))) = [x]"
| "dict_assigned s = []"

definition dict_names :: "notebook \<Rightarrow> string list" where
  "dict_names nb = concat (map dict_assigned (concat nb))"

text \<open>
  A statement is free of handlers when no \<open>try\<close> occurs in it.
\<close>

fun handler_free :: "stmt \<Rightarrow> bool"
  and handler_free_block :: "stmt list \<Rightarrow> bool" where
  "handler_free (Simple s) = True"
| "handler_free (For x it body) = handler_free_block body"
| "handler_free (IfElse c yes no) = (handler_free_block yes \<and> handler_free_block no)"
| "handler_free (TryExcept body handler) = False"
| "handler_free_block [] = True"
| "handler_free_block (s # ss) = (handler_free s \<and> handler_free_block ss)"

fun handler_free_notebook :: "notebook \<Rightarrow> bool" where
  "handler_free_notebook [] = True"
| "handler_free_notebook (c # cs) = (handler_free_block c \<and> handler_free_notebook cs)"

text \<open>
  A cell only sequences library calls when each of its statements is an import, an
  assignment or a displayed or printed expression, built from names, literals,
  attributes, subscripts, displays and calls alone: no loop, no conditional, no
  augmented assignment, no arithmetic and no comparison written in the cell.
\<close>

fun plain :: "expr \<Rightarrow> bool"
  and plain_list :: "expr list \<Rightarrow> bool" where
  "plain (Name x) = True"
| "plain (IntLit n) = True"
| "plain (FloatLit x) = True"
| "plain (StrLit s) = True"
| "plain (Attr e a) = plain e"
| "plain (Call f args) = plain_list (f # args)"
| "plain (Kw k e) = plain e"
| "plain (StarStar e) = plain e"
| "plain (Item k v) = (plain k \<and> plain v)"
| "plain (Dict items) = plain_list items"
| "plain (ListE es) = plain_list es"
| "plain (Tuple es) = plain_list es"
| "plain (Subscript e i) = (plain e \<and> plain i)"
| "plain (Compare a c b) = False"
| "plain (BinOp a b c) = False"
| "plain_list [] = True"
| "plain_list (e # es) = (plain e \<and> plain_list es)"

fun sequencing_simple :: "simple_stmt \<Rightarrow> bool" where
  "sequencing_simple (Import m a) = True"
| "sequencing_simple (FromImport m x) = True"
| "sequencing_simple (Assign target v) = (plain target \<and> plain v)"
| "sequencing_simple (AugAssign target b v) = False"
| "sequencing_simple (ExprStmt e) = plain e"
| "sequencing_simple (Print e) = plain e"

fun sequencing :: "stmt \<Rightarrow> bool" where
  "sequencing (Simple s) = sequencing_simple s"
| "sequencing (For x it body) = False"
| "sequencing (IfElse c yes no) = False"
| "sequencing (TryExcept body handler) = False"

fun sequencing_cell :: "cell \<Rightarrow> bool" where
  "sequencing_cell [] = True"
| "sequencing_cell (s # ss) = (sequencing s \<and> sequencing_cell ss)"

fun sequencing_notebook :: "notebook \<Rightarrow> bool" where
  "sequencing_notebook [] = True"
| "sequencing_notebook (c # cs) = (sequencing_cell c \<and> sequencing_notebook cs)"

section \<open>Running cells: defined names and exceptions\<close>

text \<open>
  What a cell does to the data is the business of the libraries it calls. What the
  notebook itself decides is which names are defined and where an exception goes. The
  model therefore runs a cell on the set of defined names. Every operation that can
  raise (a call, a subscript, an operator, an import) is attempted under its name, and
  \<open>raises k op\<close> tells whether the operation \<open>op\<close>, attempted as operation number \<open>k\<close>
  of the run, raises, and what. A result is the list of operations attempted, in order,
  and the exception that ended the evaluation, if any.
\<close>

type_synonym failures = "nat \<Rightarrow> string \<Rightarrow> py_error option"
type_synonym result = "string list \<times> py_error option"

definition attempt :: "failures \<Rightarrow> nat \<Rightarrow> string \<Rightarrow> result \<Rightarrow> result" where
  "attempt raises n op r =
     (case r of
        (t, Some e) \<Rightarrow> (t, Some e)
      | (t, None) \<Rightarrow> (t @ [op], raises (n + length t) op))"

definition after :: "result \<Rightarrow> result \<Rightarrow> result" where
  "after r1 r2 =
     (case r1 of (t, Some e) \<Rightarrow> (t, Some e) | (t, None) \<Rightarrow> (t @ fst r2, snd r2))"

definition later :: "nat \<Rightarrow> result \<Rightarrow> nat" where
  "later n r = n + length (fst r)"

text \<open>
  Evaluation goes from left to right and stops at the first exception. Reading a name
  that is not defined raises NameError; reading an attribute is counted with the
  evaluation of its object. A call evaluates the function and the arguments, then
  attempts the call. The number \<open>n\<close> counts the operations attempted before the
  evaluation starts.
\<close>

fun eval :: "failures \<Rightarrow> nat \<Rightarrow> string set \<Rightarrow> expr \<Rightarrow> result"
  and evals :: "failures \<Rightarrow> nat \<Rightarrow> string set \<Rightarrow> expr list \<Rightarrow> result" where
  "eval raises n ns (Name x) = ([], if x \<in> ns then None else Some (NameError x))"
| "eval raises n ns (IntLit k) = ([], None)"
| "eval raises n ns (FloatLit x) = ([], None)"
| "eval raises n ns (StrLit s) = ([], None)"
| "eval raises n ns (Attr e a) = eval raises n ns e"
| "eval raises n ns (Call f args) = attempt raises n (dotted f) (evals raises n ns (f # args))"
| "eval raises n ns (Kw k e) = eval raises n ns e"
| "eval raises n ns (StarStar e) = eval raises n ns e"
| "eval raises n ns (Item k v) =
     after (eval raises n ns k) (eval raises (later n (eval raises n ns k)) ns v)"
| "eval raises n ns (Dict items) = evals raises n ns items"
| "eval raises n ns (ListE es) = evals raises n ns es"
| "eval raises n ns (Tuple es) = evals raises n ns es"
| "eval raises n ns (Subscript e i) =
     attempt raises n (dotted e @ ''[]'')
       (after (eval raises n ns e) (eval raises (later n (eval raises n ns e)) ns i))"
| "eval raises n ns (Compare a c b) =
     attempt raises n (cmpop_name c)
       (after (eval raises n ns a) (eval raises (later n (eval raises n ns a)) ns b))"
| "eval raises n ns (BinOp a b c) =
     attempt raises n (binop_name b)
       (after (eval raises n ns a) (eval raises (later n (eval raises n ns a)) ns c))"
| "evals raises n ns [] = ([], None)"
| "evals raises n ns (e # es) =
     after (eval raises n ns e) (evals raises (later n (eval raises n ns e)) ns es)"

text \<open>
  An outcome is the set of names defined afterwards together with the result. An
  assignment evaluates its right-hand side first; a name is bound only when no exception
  was raised, and a store into a subscript is one more operation.
\<close>

type_synonym outcome = "string set \<times> string list \<times> py_error option"

definition bind_name :: "string \<Rightarrow> string set \<Rightarrow> result \<Rightarrow> outcome" where
  "bind_name x ns r = (case r of (t, Some e) \<Rightarrow> (ns, t, Some e) | (t, None) \<Rightarrow> (insert x ns, t, None))"

definition no_bind :: "string set \<Rightarrow> result \<Rightarrow> outcome" where
  "no_bind ns r = (ns, fst r, snd r)"

fun store :: "failures \<Rightarrow> nat \<Rightarrow> string set \<Rightarrow> expr \<Rightarrow> result \<Rightarrow> outcome" where
  "store raises n ns (Name x) r = bind_name x ns r"
| "store raises n ns (Subscript a i) r =
     no_bind ns (attempt raises n (dotted a @ ''[]='')
       (after r (after (eval raises (later n r) ns a)
                       (eval raises (later (later n r) (eval raises (later n r) ns a)) ns i))))"
| "store raises n ns target r = no_bind ns (after r (eval raises (later n r) ns target))"

fun exec_simple :: "failures \<Rightarrow> nat \<Rightarrow> string set \<Rightarrow> simple_stmt \<Rightarrow> outcome" where
  "exec_simple raises n ns (Import m a) =
     bind_name a ns (attempt raises n (''import '' @ m) ([], None))"
| "exec_simple raises n ns (FromImport m x) =
     bind_name x ns (attempt raises n (''import '' @ m) ([], None))"
| "exec_simple raises n ns (Assign target v) = store raises n ns target (eval raises n ns v)"
| "exec_simple raises n ns (AugAssign target b v) =
     store raises n ns target
       (attempt raises n (binop_name b)
          (after (eval raises n ns target)
                 (eval raises (later n (eval raises n ns target)) ns v)))"
| "exec_simple raises n ns (ExprStmt e) = no_bind ns (eval raises n ns e)"
| "exec_simple raises n ns (Print e) = no_bind ns (eval raises n ns e)"

text \<open>
  Compound statements. The values are not modelled, so a loop may run any number of
  times and a conditional may take either branch. \<open>iterate\<close> is one or more passes of a
  loop body. A handler catches every exception of its block.
\<close>

inductive exec :: "failures \<Rightarrow> nat \<Rightarrow> string set \<Rightarrow> stmt \<Rightarrow> outcome \<Rightarrow> bool"
  and execs :: "failures \<Rightarrow> nat \<Rightarrow> string set \<Rightarrow> stmt list \<Rightarrow> outcome \<Rightarrow> bool"
  and iterate :: "failures \<Rightarrow> nat \<Rightarrow> string set \<Rightarrow> stmt list \<Rightarrow> outcome \<Rightarrow> bool"
  for raises :: failures where
  exec_Simple: "exec_simple raises n ns s = out \<Longrightarrow> exec raises n ns (Simple s) out"
| exec_For_raise:
    "eval raises n ns it = (t, Some e) \<Longrightarrow> exec raises n ns (For x it body) (ns, t, Some e)"
| exec_For_empty:
    "eval raises n ns it = (t, None) \<Longrightarrow> exec raises n ns (For x it body) (ns, t, None)"
| exec_For_iterate:
    "eval raises n ns it = (t, None) \<Longrightarrow>
     iterate raises (n + length t) (insert x ns) body (ns', t', r) \<Longrightarrow>
     exec raises n ns (For x it body) (ns', t @ t', r)"
| exec_If_raise:
    "eval raises n ns c = (t, Some e) \<Longrightarrow> exec raises n ns (IfElse c yes no) (ns, t, Some e)"
| exec_If_yes:
    "eval raises n ns c = (t, None) \<Longrightarrow> execs raises (n + length t) ns yes (ns', t', r) \<Longrightarrow>
     exec raises n ns (IfElse c yes no) (ns', t @ t', r)"
| exec_If_no:
    "eval raises n ns c = (t, None) \<Longrightarrow> execs raises (n + length t) ns no (ns', t', r) \<Longrightarrow>
     exec raises n ns (IfElse c yes no) (ns', t @ t', r)"
| exec_Try_ok:
    "execs raises n ns body (ns', t, None) \<Longrightarrow>
     exec raises n ns (TryExcept body handler) (ns', t, None)"
| exec_Try_caught:
    "execs raises n ns body (ns', t, Some e) \<Longrightarrow>
     execs raises (n + length t) ns' handler (ns'', t', r) \<Longrightarrow>
     exec raises n ns (TryExcept body handler) (ns'', t @ t', r)"
| execs_Nil: "execs raises n ns [] (ns, [], None)"
| execs_raise:
    "exec raises n ns s (ns', t, Some e) \<Longrightarrow> execs raises n ns (s # ss) (ns', t, Some e)"
| execs_next:
    "exec raises n ns s (ns', t, None) \<Longrightarrow> execs raises (n + length t) ns' ss (ns'', t', r) \<Longrightarrow>
     execs raises n ns (s # ss) (ns'', t @ t', r)"
| iterate_last: "execs raises n ns body out \<Longrightarrow> iterate raises n ns body out"
| iterate_more:
    "execs raises n ns body (ns', t, None) \<Longrightarrow>
     iterate raises (n + length t) ns' body (ns'', t', r) \<Longrightarrow>
     iterate raises n ns body (ns'', t @ t', r)"

code_pred exec .

text \<open>
  The cells of a notebook are run one after the other in the same kernel: a cell that
  ended with an exception leaves the names it had defined, and the next cell is run all
  the same, as the recorded outputs of the standard-interface notebook show.
\<close>

inductive run :: "failures \<Rightarrow> nat \<Rightarrow> string set \<Rightarrow> notebook \<Rightarrow> (string list \<times> py_error option) list \<Rightarrow> bool"
  for raises :: failures where
  run_Nil: "run raises n ns [] []"
| run_Cons:
    "execs raises n ns c (ns', t, r) \<Longrightarrow> run raises (n + length t) ns' cs outs \<Longrightarrow>
     run raises n ns (c # cs) ((t, r) # outs)"

code_pred run .

definition builtins :: "string set" where
  "builtins = {''range'', ''len''}"

text \<open>
  Every operation attempted along the way either did not raise or raised the exception
  that came out.
\<close>

definition propagates :: "failures \<Rightarrow> nat \<Rightarrow> result \<Rightarrow> bool" where
  "propagates raises n r =
     (\<forall>i < length (fst r). \<forall>e. raises (n + i) (fst r ! i) = Some e \<longrightarrow> snd r = Some e)"

text \<open>The run in which no operation raises.\<close>

definition no_failures :: failures where
  "no_failures = (\<lambda>k op. None)"

text \<open>
  The recorded run of the standard-interface notebook: \<open>xgb.train\<close> raises
  WindowsError, everything else returns.
\<close>

definition windows_error :: failures where
  "windows_error =
     (\<lambda>k op. if op = ''xgb.train'' then Some (LibraryError ''WindowsError'') else None)"

definition recorded_outcomes :: "(string list \<times> py_error option) list" where
  "recorded_outcomes =
     [([''import numpy'', ''import xgboost''], None),
      ([''xgb.DMatrix'', ''xgb.DMatrix''], None),
      ([], None),
      ([''dtrain.num_row'', ''dtrain.num_col'', ''str.format'',
        ''dtest.num_row'', ''dtest.num_col'', ''str.format''], None),
      ([''dtrain.get_label'', ''np.unique'', ''dtest.get_label'', ''np.unique''], None),
      ([], None),
      ([''xgb.train''], Some (LibraryError ''WindowsError'')),
      ([''xgb.train''], Some (LibraryError ''WindowsError'')),
      ([], Some (NameError ''bst''))]"

section \<open>Properties of the threshold and of the accuracy loop\<close>

lemma accuracy_loop_counts:
  "\<forall>i \<in> set idx. i < length labels \<Longrightarrow>
   accuracy_loop labels preds idx c =
     Inr (c + real (length (filter (\<lambda>i. np_eq_bool (labels ! i) (preds ! i)) idx)))"
  by (induction idx arbitrary: c) (auto simp: loop_body_def)

lemma agreeing_card:
  "length (agreeing labels preds) = card {i. i < length preds \<and> np_eq_bool (labels ! i) (preds ! i)}"
proof -
  have "distinct (agreeing labels preds)"
    by (simp add: agreeing_def)
  moreover have "set (agreeing labels preds) = {i. i < length preds \<and> np_eq_bool (labels ! i) (preds ! i)}"
    by (auto simp: agreeing_def)
  ultimately show ?thesis
    using distinct_card by fastforce
qed

lemma bit_length_bounds:
  "0 < n \<Longrightarrow> 2 ^ (bit_length n - 1) \<le> n \<and> n < 2 ^ bit_length n"
proof (induction n rule: bit_length.induct)
  case (1 n)
  show ?case
  proof (cases "n div 2 \<le> 0")
    case True
    with "1.prems" have "n = 1" by linarith
    then show ?thesis
      by (simp add: bit_length.simps [of 1] bit_length.simps [of 0])
  next
    case False
    then have pos: "0 < n div 2" by simp
    have len: "bit_length n = Suc (bit_length (n div 2))"
      using "1.prems" by (simp add: bit_length.simps [of n])
    have "0 < bit_length (n div 2)"
      using pos by (simp add: bit_length.simps [of "n div 2"])
    then obtain k where k: "bit_length (n div 2) = Suc k"
      by (cases "bit_length (n div 2)") auto
    from "1.IH" [OF _ pos] "1.prems"
    have ih: "2 ^ k \<le> n div 2" "n div 2 < 2 ^ Suc k"
      by (simp_all add: k)
    have "2 * 2 ^ k \<le> n"
      using ih(1) by linarith
    moreover have "n < 2 * 2 ^ Suc k"
      using ih(2) by linarith
    ultimately show ?thesis
      by (simp add: len k)
  qed
qed

lemma two_power_le_of_int: "(2::int) ^ k \<le> m \<Longrightarrow> (2::real) ^ k \<le> of_int m"
  using of_int_le_iff [of "2 ^ k" m, where ?'a = real] by simp

lemma of_int_le_two_power: "m \<le> (2::int) ^ k \<Longrightarrow> of_int m \<le> (2::real) ^ k"
  using of_int_le_iff [of m "2 ^ k", where ?'a = real] by simp

lemma pow2_power_int: "pow2 k = 2 powi k"
  by (simp add: pow2_def power_int_def inverse_eq_divide power_one_over)

lemma pow2_pos: "0 < pow2 k"
  by (simp add: pow2_power_int)

lemma pow2_mono: "a \<le> b \<Longrightarrow> pow2 a \<le> pow2 b"
  by (simp add: pow2_power_int power_int_increasing)

lemma exponent_bounds:
  assumes "0 < x"
  shows "pow2 (exponent x) \<le> x \<and> x < pow2 (exponent x + 1)"
proof (cases "1 \<le> x")
  case True
  then have f: "0 < \<lfloor>x\<rfloor>" by linarith
  from bit_length_bounds [OF f]
  have b: "2 ^ (bit_length \<lfloor>x\<rfloor> - 1) \<le> \<lfloor>x\<rfloor>" "\<lfloor>x\<rfloor> < 2 ^ bit_length \<lfloor>x\<rfloor>"
    by simp_all
  have pos: "0 < bit_length \<lfloor>x\<rfloor>"
    using f by (simp add: bit_length.simps [of "\<lfloor>x\<rfloor>"])
  have e: "exponent x = int (bit_length \<lfloor>x\<rfloor>) - 1"
    using True by (simp add: exponent_def)
  have "pow2 (exponent x) = 2 ^ (bit_length \<lfloor>x\<rfloor> - 1)"
    using pos by (simp add: e pow2_def nat_diff_distrib')
  moreover have "(2::real) ^ (bit_length \<lfloor>x\<rfloor> - 1) \<le> of_int \<lfloor>x\<rfloor>"
    using b(1) by (rule two_power_le_of_int)
  moreover have "pow2 (exponent x + 1) = 2 ^ bit_length \<lfloor>x\<rfloor>"
    by (simp add: e pow2_def)
  moreover have "of_int (\<lfloor>x\<rfloor> + 1) \<le> (2::real) ^ bit_length \<lfloor>x\<rfloor>"
    using b(2) by (intro of_int_le_two_power) linarith
  moreover have "of_int \<lfloor>x\<rfloor> \<le> x" "x < of_int (\<lfloor>x\<rfloor> + 1)"
    by linarith+
  ultimately show ?thesis
    by linarith
next
  case False
  let ?m = "\<lceil>1 / x\<rceil>"
  have inv: "1 < 1 / x"
    using assms False by simp
  then have m: "0 < ?m - 1" by linarith
  from bit_length_bounds [OF m]
  have b: "2 ^ (bit_length (?m - 1) - 1) \<le> ?m - 1" "?m - 1 < 2 ^ bit_length (?m - 1)"
    by simp_all
  have pos: "0 < bit_length (?m - 1)"
    using m by (simp add: bit_length.simps [of "?m - 1"])
  have e: "exponent x = - int (bit_length (?m - 1))"
    using False by (simp add: exponent_def)
  have lo: "pow2 (exponent x) = 1 / 2 ^ bit_length (?m - 1)"
    using pos by (simp add: e pow2_def)
  have hi: "pow2 (exponent x + 1) = 1 / 2 ^ (bit_length (?m - 1) - 1)"
  proof (cases "bit_length (?m - 1) = 1")
    case True
    then show ?thesis by (simp add: e pow2_def)
  next
    case False
    with pos have "1 < bit_length (?m - 1)" by simp
    then have "nat (int (bit_length (?m - 1)) - 1) = bit_length (?m - 1) - 1" "\<not> 0 \<le> 1 - int (bit_length (?m - 1))"
      by simp_all
    then show ?thesis
      by (simp add: e pow2_def)
  qed
  have "of_int ?m \<le> (2::real) ^ bit_length (?m - 1)"
    using b(2) by (intro of_int_le_two_power) linarith
  then have "1 / x \<le> 2 ^ bit_length (?m - 1)"
    using le_of_int_ceiling [of "1 / x"] by linarith
  then have c1: "1 / 2 ^ bit_length (?m - 1) \<le> x"
    using assms by (simp add: field_simps)
  have "(2::real) ^ (bit_length (?m - 1) - 1) \<le> of_int (?m - 1)"
    using b(1) by (rule two_power_le_of_int)
  moreover have "of_int (?m - 1) < 1 / x"
    by linarith
  ultimately have "2 ^ (bit_length (?m - 1) - 1) < 1 / x"
    by linarith
  then have c2: "x < 1 / 2 ^ (bit_length (?m - 1) - 1)"
    using assms by (simp add: field_simps)
  show ?thesis
    using c1 c2 lo hi by simp
qed

lemma round_half_even_close: "\<bar>of_int (round_half_even y) - y\<bar> \<le> 1 / 2"
  by (auto simp: round_half_even_def Let_def)

lemma round_half_even_of_int: "round_half_even (of_int k) = k"
  by (simp add: round_half_even_def)

lemma round_half_even_le: "y \<le> of_int k \<Longrightarrow> round_half_even y \<le> k"
  unfolding round_half_even_def Let_def by (auto simp: le_floor_iff floor_le_iff; linarith)

lemma round_half_even_ge: "of_int k \<le> y \<Longrightarrow> k \<le> round_half_even y"
  unfolding round_half_even_def Let_def by (auto simp: le_floor_iff floor_le_iff; linarith)


lemma binary64_one: "binary64 1 = 1"
  by (simp add: binary64_def exponent_def pow2_def round_half_even_def bit_length.simps Let_def)

lemma binary64_unit:
  assumes "0 \<le> x" and "x \<le> 1"
  shows "0 \<le> binary64 x \<and> binary64 x \<le> 1 \<and> \<bar>binary64 x - x\<bar> \<le> 1 / 2 ^ 54"
proof (cases "x = 0 \<or> x = 1")
  case True
  have "binary64 0 = 0"
    by (simp add: binary64_def)
  with True show ?thesis
    by (auto simp: binary64_one)
next
  case False
  with assms have x: "0 < x" "x < 1" by auto
  define E where "E = max (exponent x) (- 1022)"
  define u where "u = pow2 (E - 52)"
  define y where "y = x / u"
  have "exponent x < 0"
  proof (rule ccontr)
    assume "\<not> exponent x < 0"
    then have "pow2 0 \<le> pow2 (exponent x)"
      by (intro pow2_mono) simp
    with exponent_bounds [OF x(1)] x(2) show False
      by (simp add: pow2_def)
  qed
  then have E: "E \<le> - 1"
    by (simp add: E_def)
  have u_pos: "0 < u"
    by (simp add: u_def pow2_pos)
  have "u \<le> pow2 (- 53)"
    unfolding u_def using E by (intro pow2_mono) simp
  then have u_le: "u \<le> 1 / 2 ^ 53"
    by (simp add: pow2_def)
  have val: "binary64 x = of_int (round_half_even y) * u"
    using x by (simp add: binary64_def Let_def E_def u_def y_def)
  have xu: "x = y * u"
    using u_pos by (simp add: y_def)
  have "binary64 x - x = (of_int (round_half_even y) - y) * u"
    by (simp add: val xu [symmetric] left_diff_distrib)
  then have "\<bar>binary64 x - x\<bar> = \<bar>of_int (round_half_even y) - y\<bar> * u"
    using u_pos by (simp add: abs_mult)
  also have "\<dots> \<le> (1 / 2) * u"
    using round_half_even_close [of y] u_pos by (intro mult_right_mono) simp_all
  also have "\<dots> \<le> 1 / 2 ^ 54"
    using u_le by simp
  finally have close: "\<bar>binary64 x - x\<bar> \<le> 1 / 2 ^ 54" .
  have "of_int 0 \<le> y"
    using x u_pos by (simp add: y_def)
  then have "0 \<le> round_half_even y"
    by (rule round_half_even_ge)
  then have lo: "0 \<le> binary64 x"
    using u_pos by (simp add: val)
  have inv: "1 / u = of_int (2 ^ nat (52 - E))"
    using E by (simp add: u_def pow2_def)
  have "y \<le> 1 / u"
    using x u_pos by (simp add: y_def divide_right_mono)
  then have "round_half_even y \<le> 2 ^ nat (52 - E)"
    unfolding inv by (rule round_half_even_le)
  then have "of_int (round_half_even y) \<le> (of_int (2 ^ nat (52 - E)) :: real)"
    by (simp only: of_int_le_iff)
  then have "of_int (round_half_even y) \<le> 1 / u"
    by (simp only: inv)
  then have hi: "binary64 x \<le> 1"
    using u_pos by (simp add: val field_simps)
  show ?thesis
    using lo hi close by simp
qed

lemma error_value_close:
  assumes "0 \<le> c" and "c \<le> n" and "0 < n"
  shows "\<bar>float_sub 1 (float_div c n) - (1 - c / n)\<bar> \<le> 1 / 2 ^ 53"
proof -
  have q: "0 \<le> c / n" "c / n \<le> 1"
    using assms by simp_all
  from binary64_unit [OF q]
  have fq: "0 \<le> float_div c n" "float_div c n \<le> 1" "\<bar>float_div c n - c / n\<bar> \<le> 1 / 2 ^ 54"
    by (simp_all add: float_div_def)
  then have d: "0 \<le> 1 - float_div c n" "1 - float_div c n \<le> 1"
    by simp_all
  from binary64_unit [OF d]
  have "\<bar>float_sub 1 (float_div c n) - (1 - float_div c n)\<bar> \<le> 1 / 2 ^ 54"
    by (simp add: float_sub_def)
  moreover have "(1::real) / 2 ^ 54 + 1 / 2 ^ 54 = 1 / 2 ^ 53"
    by simp
  ultimately show ?thesis
    using fq(3) by linarith
qed

text \<open>
  Claim C2. For labels and predictions of equal length the accuracy loop ends without an
  exception, and \<open>correct\<close> is then the number of indices \<open>i\<close> with
  \<open>labels[i] == preds[i]\<close>; when there is at least one prediction, the error handed to the
  second \<open>print\<close> is the float that Python computes for \<open>1 - correct/len(preds)\<close>, which
  lies within 2 to the power -53 of the exact value of that expression.
\<close>

theorem accuracy_loop_correct:
  assumes "length labels = length preds"
  shows "accuracy_loop labels preds [0..<length preds] 0
           = Inr (real (card {i. i < length preds \<and> np_eq_bool (labels ! i) (preds ! i)}))
       \<and> (preds = threshold preds_prob \<and> preds \<noteq> [] \<longrightarrow>
            accuracy_cell labels preds_prob =
              ([PredictedCorrectly (real (length (agreeing labels preds))) (length preds),
                Error (float_sub 1 (float_div (real (length (agreeing labels preds)))
                                              (real (length preds))))], None)
            \<and> \<bar>float_sub 1 (float_div (real (length (agreeing labels preds)))
                                         (real (length preds)))
                 - (1 - real (length (agreeing labels preds)) / real (length preds))\<bar>
                \<le> 1 / 2 ^ 53)"
proof -
  have loop: "accuracy_loop labels preds [0..<length preds] 0
                = Inr (real (length (agreeing labels preds)))"
    using assms accuracy_loop_counts [of "[0..<length preds]" labels preds 0]
    by (simp add: agreeing_def)
  have "length (agreeing labels preds) \<le> length preds"
    using length_filter_le [of _ "[0..<length preds]"] by (simp add: agreeing_def)
  then have close: "\<bar>float_sub 1 (float_div (real (length (agreeing labels preds)))
                                         (real (length preds)))
                 - (1 - real (length (agreeing labels preds)) / real (length preds))\<bar>
                \<le> 1 / 2 ^ 53" if "preds \<noteq> []"
    using that by (intro error_value_close) simp_all
  show ?thesis
    using loop close by (auto simp: accuracy_cell_def Let_def agreeing_card)
qed

theorem accuracy_loop_correct_witness:
  "accuracy_loop [Fin 1, Fin 1, Fin 1] [True, False, False]
     [0..<length [True, False, False]] 0 = Inr 1
   \<and> accuracy_cell [Fin 1, Fin 1, Fin 1] [Fin (7/8), Fin (1/8), Fin (1/4)]
       = ([PredictedCorrectly 1 3, Error (3002399751580331 / 4503599627370496)], None)"
proof -
  let ?labels = "[Fin 1, Fin 1, Fin 1]"
  let ?preds = "[True, False, False]"
  let ?probs = "[Fin (7/8), Fin (1/8), Fin (1/4)]"
  have len: "length ?labels = length ?preds"
    by simp
  have thr: "?preds = threshold ?probs \<and> ?preds \<noteq> []"
    by (simp add: threshold_def)
  have agr: "agreeing ?labels ?preds = [0]"
    by (simp add: agreeing_def upt_rec)
  have crd: "card {i. i < length ?preds \<and> np_eq_bool (?labels ! i) (?preds ! i)} = 1"
    using agreeing_card [of ?labels ?preds, symmetric] by (simp only: agr) simp
  have err: "float_sub 1 (float_div 1 3) = 3002399751580331 / 4503599627370496"
    by (simp add: float_sub_def float_div_def binary64_def exponent_def pow2_def
        round_half_even_def bit_length.simps Let_def)
  note main = accuracy_loop_correct [OF len, of ?probs]
  have "accuracy_loop ?labels ?preds [0..<length ?preds] 0 = Inr 1"
    using main by (simp only: crd) simp
  moreover have "accuracy_cell ?labels ?probs =
      ([PredictedCorrectly (real (length (agreeing ?labels ?preds))) (length ?preds),
        Error (float_sub 1 (float_div (real (length (agreeing ?labels ?preds)))
                                      (real (length ?preds))))], None)"
    using main thr by blast
  then have "accuracy_cell ?labels ?probs =
      ([PredictedCorrectly 1 3, Error (3002399751580331 / 4503599627370496)], None)"
    by (simp add: agr err)
  ultimately show ?thesis
    by blast
qed

text \<open>
  Claim C8. The threshold is strict: at every index the prediction is the positive class
  exactly when the predicted probability is strictly greater than 0.5, and a predicted
  probability of exactly 0.5 gives the negative class.
\<close>

theorem threshold_strict:
  assumes "i < length preds_prob"
  shows "length (threshold preds_prob) = length preds_prob
       \<and> (threshold preds_prob ! i \<longleftrightarrow>
            (\<exists>x. preds_prob ! i = Fin x \<and> 1/2 < x) \<or> preds_prob ! i = PInf)
       \<and> (preds_prob ! i = Fin (1/2) \<longrightarrow> \<not> threshold preds_prob ! i)"
  using assms by (cases "preds_prob ! i") (auto simp: threshold_def)

theorem threshold_strict_witness:
  "\<not> threshold [Fin (9/10), Fin (1/2), Fin (1/10)] ! 1
   \<and> length (threshold [Fin (9/10), Fin (1/2), Fin (1/10)]) = 3"
proof -
  have h: "1 < length [Fin (9/10), Fin (1/2), Fin (1/10)]"
    by simp
  show ?thesis
    using threshold_strict [OF h] by simp
qed


section \<open>Properties of the missing-values notebook\<close>

lemma length_set_entry: "length (set_entry m i j v) = length m"
  by (simp add: set_entry_def)

lemma row_length_set_entry: "length (set_entry m i j v ! k) = length (m ! k)"
  by (cases "i < length m"; cases "k = i") (simp_all add: set_entry_def list_update_beyond)

lemma nth_set_entry:
  "k < length m \<Longrightarrow> l < length (m ! k) \<Longrightarrow>
   set_entry m i j v ! k ! l = (if k = i \<and> l = j then v else m ! k ! l)"
  by (cases "k = i") (auto simp: set_entry_def nth_list_update)

lemma fold_shape:
  "length (fold (\<lambda>ij m'. set_entry m' (fst ij) (snd ij) v) ps m) = length m
   \<and> length (fold (\<lambda>ij m'. set_entry m' (fst ij) (snd ij) v) ps m ! k) = length (m ! k)"
  by (induction ps arbitrary: m) (simp_all add: length_set_entry row_length_set_entry)

lemma fold_nth:
  "k < length m \<Longrightarrow> l < length (m ! k) \<Longrightarrow>
   fold (\<lambda>ij m'. set_entry m' (fst ij) (snd ij) v) ps m ! k ! l
     = (if (k, l) \<in> set ps then v else m ! k ! l)"
proof (induction ps arbitrary: m)
  case Nil
  then show ?case by simp
next
  case (Cons p ps)
  have "fold (\<lambda>ij m'. set_entry m' (fst ij) (snd ij) v) ps (set_entry m (fst p) (snd p) v) ! k ! l
      = (if (k, l) \<in> set ps then v else set_entry m (fst p) (snd p) v ! k ! l)"
    using Cons.prems by (intro Cons.IH) (simp_all add: length_set_entry row_length_set_entry)
  then show ?case
    using Cons.prems by (cases p) (auto simp: nth_set_entry)
qed

lemma setitems_cases:
  "setitems a ps v w =
     (if list_all (\<lambda>ij. fst ij < length (arrays w a) \<and> snd ij < length (arrays w a ! fst ij)) ps
      then Inr (w\<lparr>arrays := (arrays w)(a := fold (\<lambda>ij m'. set_entry m' (fst ij) (snd ij) v) ps (arrays w a))\<rparr>)
      else Inl IndexError)"
proof (induction ps arbitrary: w)
  case Nil
  show ?case by simp
next
  case (Cons p ps)
  show ?case
  proof (cases "fst p < length (arrays w a) \<and> snd p < length (arrays w a ! fst p)")
    case True
    then have "setitem a p v w = Inr (w\<lparr>arrays := (arrays w)(a := set_entry (arrays w a) (fst p) (snd p) v)\<rparr>)"
      by (simp add: setitem_def Let_def)
    then show ?thesis
      using True by (simp add: and_then_def Cons.IH length_set_entry row_length_set_entry fun_upd_def cong: if_cong)
  next
    case False
    then have "setitem a p v w = Inl IndexError"
      by (auto simp: setitem_def Let_def)
    then show ?thesis
      using False by (auto simp: and_then_def)
  qed
qed

lemma add_missing_setitems:
  "add_missing dv w =
     and_then (setitems (fresh w) assigned NaN (snd (np_copy dv w))) (\<lambda>w'. Inr (fresh w, w'))"
  by (simp add: add_missing_def np_copy_def new_array_def and_then_def assigned_def
      split: sum.splits)

lemma add_missing_cases:
  "add_missing dv w =
     (if in_range (arrays w dv)
      then Inr (fresh w, w\<lparr>arrays := (arrays w)(fresh w := with_nans (arrays w dv)),
                            fresh := Suc (fresh w)\<rparr>)
      else Inl IndexError)"
  by (simp add: add_missing_setitems setitems_cases np_copy_def new_array_def and_then_def
      with_nans_def in_range_def)

lemma valid_arrayD:
  assumes "valid_array r c m"
  shows "length m = r" and "k < r \<Longrightarrow> length (m ! k) = c"
    and "k < r \<Longrightarrow> l < c \<Longrightarrow> is_finite (m ! k ! l)"
  using assms by (auto simp: valid_array_def list_all_length)

lemma valid_in_range: "valid_array 10 5 m \<Longrightarrow> in_range m"
  by (simp add: in_range_def assigned_def valid_arrayD)

lemma is_nan_with_nans:
  assumes "valid_array 10 5 m" and "k < 10" and "l < 5"
  shows "is_nan (with_nans m ! k ! l) = ((k, l) \<in> set assigned)"
proof -
  have fin: "is_finite (m ! k ! l)"
    using assms by (simp add: valid_arrayD)
  have "with_nans m ! k ! l = (if (k, l) \<in> set assigned then NaN else m ! k ! l)"
    unfolding with_nans_def using assms by (intro fold_nth) (simp_all add: valid_arrayD)
  then show ?thesis
    using fin by (cases "m ! k ! l") (simp_all add: is_nan_def is_finite_def)
qed

lemma upt_10: "[0..<10] = [0, 1, 2, 3, 4, 5, 6, 7, 8, 9]"
  by (simp add: upt_rec)

lemma upt_5: "[0..<5] = [0, 1, 2, 3, 4]"
  by (simp add: upt_rec)

lemma nan_positions_with_nans:
  assumes "valid_array 10 5 m"
  shows "nan_positions (with_nans m) = [(0, 1), (0, 2), (1, 0), (2, 3), (4, 4), (7, 2), (9, 1)]"
proof -
  have len: "length (with_nans m) = 10"
    using assms by (simp add: with_nans_def fold_shape valid_arrayD)
  have row: "length (with_nans m ! k) = 5" if "k < 10" for k
    using assms that by (simp add: with_nans_def fold_shape valid_arrayD)
  note nan = is_nan_with_nans [OF assms]
  show ?thesis
    by (simp add: nan_positions_def len upt_10 row upt_5 nan assigned_def)
qed

lemma nan_positions_valid:
  assumes "valid_array 10 5 m"
  shows "nan_positions m = []"
proof -
  have "\<not> is_nan (m ! k ! l)" if "k < 10" "l < 5" for k l
    using valid_arrayD(3) [OF assms that] by (cases "m ! k ! l") (simp_all add: is_nan_def is_finite_def)
  then show ?thesis
    using assms by (simp add: nan_positions_def valid_arrayD upt_10 upt_5)
qed

lemma create_valid_eq:
  "create_valid R w =
     (fresh w, w\<lparr>gen := snd (np_rand R (np_seed R seed) 10 5),
                 arrays := (arrays w)(fresh w := fst (np_rand R (np_seed R seed) 10 5)),
                 fresh := Suc (fresh w)\<rparr>)"
  by (simp add: create_valid_def new_array_def Let_def split: prod.splits)

lemma make_label_eq:
  "make_label R w =
     (fst (np_randint R (np_seed R seed) 2 10), w\<lparr>gen := snd (np_randint R (np_seed R seed) 2 10)\<rparr>)"
  by (simp add: make_label_def Let_def split: prod.splits)

lemma prepare_data_eq:
  "prepare_data R w =
     (if in_range (fst (np_rand R (np_seed R seed) 10 5))
      then Inr (\<lparr>data_v = fresh w, data_m = Suc (fresh w),
                 label = fst (np_randint R (np_seed R seed) 2 10)\<rparr>,
                w\<lparr>gen := snd (np_randint R (np_seed R seed) 2 10),
                  arrays := (arrays w)
                    (fresh w := fst (np_rand R (np_seed R seed) 10 5),
                     Suc (fresh w) := with_nans (fst (np_rand R (np_seed R seed) 10 5))),
                  fresh := Suc (Suc (fresh w))\<rparr>)
      else Inl IndexError)"
  by (simp add: prepare_data_def create_valid_eq add_missing_cases make_label_eq and_then_def)

lemma observed_prepare_data:
  "observed (prepare_data R w) =
     (if in_range (fst (np_rand R (np_seed R seed) 10 5))
      then Inr (fst (np_rand R (np_seed R seed) 10 5),
                with_nans (fst (np_rand R (np_seed R seed) 10 5)),
                fst (np_randint R (np_seed R seed) 2 10))
      else Inl IndexError)"
  by (simp add: prepare_data_eq observed_def)


lemma valid_printed_data_v: "valid_array 10 5 printed_data_v"
  by (simp add: valid_array_def printed_data_v_def is_finite_def)

lemma replay_rand: "fst (np_rand replay g 10 5) = printed_data_v"
  by (simp add: replay_def printed_data_v_def)

lemma replay_randint: "fst (np_randint replay g 2 10) = printed_label"
  by (simp add: replay_def printed_label_def)


text \<open>
  Claim C7. Constructing the missing-values dataset leaves the valid dataset unchanged:
  for a 10 by 5 array \<open>data_v\<close>, the cell ends without an exception, \<open>data_m\<close> is a new
  object, \<open>data_v\<close> (and every other array) holds what it held before, and \<open>data_m\<close>
  agrees with \<open>data_v\<close> at every index other than the seven assigned positions (2,3),
  (0,1), (0,2), (1,0), (4,4), (7,2), (9,1), which hold NaN.
\<close>

theorem add_missing_frame:
  assumes "length (arrays w dv) = 10" and "\<forall>k<10. length (arrays w dv ! k) = 5"
    and "dv < fresh w"
  shows "\<exists>dm w'. add_missing dv w = Inr (dm, w')
           \<and> dm \<noteq> dv
           \<and> arrays w' dv = arrays w dv
           \<and> (\<forall>a. a \<noteq> dm \<longrightarrow> arrays w' a = arrays w a)
           \<and> length (arrays w' dm) = 10
           \<and> (\<forall>k<10. length (arrays w' dm ! k) = 5
                \<and> (\<forall>l<5. arrays w' dm ! k ! l =
                      (if (k, l) \<in> {(2, 3), (0, 1), (0, 2), (1, 0), (4, 4), (7, 2), (9, 1)}
                       then NaN else arrays w dv ! k ! l)))"
proof -
  let ?m = "arrays w dv"
  let ?w' = "w\<lparr>arrays := (arrays w)(fresh w := with_nans ?m), fresh := Suc (fresh w)\<rparr>"
  have rng: "in_range ?m"
    using assms(1,2) by (simp add: in_range_def assigned_def)
  have run: "add_missing dv w = Inr (fresh w, ?w')"
    using rng by (simp add: add_missing_cases)
  have shape: "length (with_nans ?m) = 10" "\<And>k. k < 10 \<Longrightarrow> length (with_nans ?m ! k) = 5"
    using assms(1,2) by (simp_all add: with_nans_def fold_shape)
  have entry: "with_nans ?m ! k ! l =
      (if (k, l) \<in> {(2, 3), (0, 1), (0, 2), (1, 0), (4, 4), (7, 2), (9, 1)}
       then NaN else ?m ! k ! l)" if "k < 10" "l < 5" for k l
  proof -
    have "with_nans ?m ! k ! l = (if (k, l) \<in> set assigned then NaN else ?m ! k ! l)"
      unfolding with_nans_def using assms(1,2) that by (intro fold_nth) simp_all
    then show ?thesis
      by (simp add: assigned_def)
  qed
  have "fresh w \<noteq> dv"
    using assms(3) by simp
  then show ?thesis
    using run shape entry by (intro exI [of _ "fresh w"] exI [of _ ?w']) simp
qed

theorem add_missing_frame_witness:
  "\<exists>dm w'. add_missing 0 \<lparr>gen = 0::nat, arrays = (\<lambda>a. printed_data_v), fresh = 1, calls = []\<rparr>
              = Inr (dm, w')
     \<and> dm \<noteq> 0
     \<and> arrays w' 0 = printed_data_v
     \<and> arrays w' dm ! 2 ! 3 = NaN
     \<and> arrays w' dm ! 3 ! 3 = Fin 0.53155137"
proof -
  let ?w = "\<lparr>gen = 0::nat, arrays = (\<lambda>a. printed_data_v), fresh = 1, calls = []\<rparr>"
  have h1: "length (arrays ?w 0) = 10"
    by (simp add: printed_data_v_def)
  have h2: "\<forall>k<10. length (arrays ?w 0 ! k) = 5"
    using valid_arrayD(2) [OF valid_printed_data_v] by simp
  have h3: "0 < fresh ?w"
    by simp
  from add_missing_frame [OF h1 h2 h3]
  obtain dm w' where run: "add_missing 0 ?w = Inr (dm, w')" and "dm \<noteq> 0"
    and same: "arrays w' 0 = arrays ?w 0"
    and entries: "\<forall>k<10. length (arrays w' dm ! k) = 5
                \<and> (\<forall>l<5. arrays w' dm ! k ! l =
                      (if (k, l) \<in> {(2, 3), (0, 1), (0, 2), (1, 0), (4, 4), (7, 2), (9, 1)}
                       then NaN else arrays ?w 0 ! k ! l))"
    by blast
  have "arrays w' dm ! 2 ! 3 = NaN"
    using entries by simp
  moreover have "arrays w' dm ! 3 ! 3 = Fin 0.53155137"
    using entries by (simp add: printed_data_v_def)
  ultimately show ?thesis
    using run \<open>dm \<noteq> 0\<close> same by simp
qed

lemma calls_lib_call: "calls (lib_call c w) = calls w @ [c]"
  by (simp add: lib_call_def)

lemma arrays_lib_call: "arrays (lib_call c w) = arrays w"
  by (simp add: lib_call_def)

text \<open>
  Claim C3. The notebook performs no missing-value imputation: when \<open>np.random.rand(10,5)\<close>
  returns a 10 by 5 array of finite numbers, \<open>data_m\<close> has NaN at exactly seven positions,
  and the library calls of the notebook are, in order, the seven listed below, where
  \<open>xgb.DMatrix\<close> with \<open>missing=np.nan\<close> and the second \<open>cross_val_score\<close> receive
  \<open>data_m\<close> with its seven NaN entries in place.
\<close>

theorem no_imputation:
  assumes "valid_array 10 5 (fst (np_rand R (np_seed R seed) 10 5))"
  shows "\<exists>p w'. missing_values_notebook R w = Inr (p, w')
           \<and> nan_positions (arrays w' (data_v p)) = []
           \<and> nan_positions (arrays w' (data_m p))
                = [(0, 1), (0, 2), (1, 0), (2, 3), (4, 4), (7, 2), (9, 1)]
           \<and> calls w' = calls w @
               [DMatrix (arrays w' (data_v p)) (label p) None,
                XgbCv native_params
                  \<lparr>dm_data = arrays w' (data_v p), dm_label = label p, dm_missing = None\<rparr>
                  num_rounds seed,
                DMatrix (arrays w' (data_m p)) (label p) (Some NaN),
                XgbCv native_params
                  \<lparr>dm_data = arrays w' (data_m p), dm_label = label p, dm_missing = Some NaN\<rparr>
                  num_rounds seed,
                XGBClassifier sklearn_params,
                CrossValScore sklearn_params (arrays w' (data_v p)) (label p) 2 ''accuracy'',
                CrossValScore sklearn_params (arrays w' (data_m p)) (label p) 2 ''accuracy'']"
proof -
  let ?m = "fst (np_rand R (np_seed R seed) 10 5)"
  have rng: "in_range ?m"
    using assms by (rule valid_in_range)
  obtain p w1 where prep: "prepare_data R w = Inr (p, w1)"
    and dv: "arrays w1 (data_v p) = ?m" and dm: "arrays w1 (data_m p) = with_nans ?m"
    and c1: "calls w1 = calls w"
    using rng by (simp add: prepare_data_eq)
  let ?w' = "sklearn_wrapper p (native_interface p w1)"
  have run: "missing_values_notebook R w = Inr (p, ?w')"
    by (simp add: missing_values_notebook_def prep and_then_def)
  have arr: "arrays ?w' = arrays w1"
    by (simp add: sklearn_wrapper_def native_interface_def Let_def arrays_lib_call)
  have cls: "calls ?w' = calls w @
               [DMatrix (arrays w1 (data_v p)) (label p) None,
                XgbCv native_params
                  \<lparr>dm_data = arrays w1 (data_v p), dm_label = label p, dm_missing = None\<rparr>
                  num_rounds seed,
                DMatrix (arrays w1 (data_m p)) (label p) (Some NaN),
                XgbCv native_params
                  \<lparr>dm_data = arrays w1 (data_m p), dm_label = label p, dm_missing = Some NaN\<rparr>
                  num_rounds seed,
                XGBClassifier sklearn_params,
                CrossValScore sklearn_params (arrays w1 (data_v p)) (label p) 2 ''accuracy'',
                CrossValScore sklearn_params (arrays w1 (data_m p)) (label p) 2 ''accuracy'']"
    by (simp add: sklearn_wrapper_def native_interface_def Let_def arrays_lib_call
        calls_lib_call c1)
  have n1: "nan_positions (arrays ?w' (data_v p)) = []"
    by (simp only: arr dv nan_positions_valid [OF assms])
  have n2: "nan_positions (arrays ?w' (data_m p))
              = [(0, 1), (0, 2), (1, 0), (2, 3), (4, 4), (7, 2), (9, 1)]"
    by (simp only: arr dm nan_positions_with_nans [OF assms])
  show ?thesis
    using run n1 n2 cls arr by (intro exI [of _ p] exI [of _ ?w']) simp
qed

theorem no_imputation_witness:
  "\<exists>p w'. missing_values_notebook replay (empty_world 0) = Inr (p, w')
     \<and> arrays w' (data_v p) = printed_data_v
     \<and> nan_positions (arrays w' (data_m p))
          = [(0, 1), (0, 2), (1, 0), (2, 3), (4, 4), (7, 2), (9, 1)]
     \<and> length (calls w') = 7"
proof -
  have h: "valid_array 10 5 (fst (np_rand replay (np_seed replay seed) 10 5))"
    by (simp only: replay_rand valid_printed_data_v)
  from no_imputation [OF h, of "empty_world 0"]
  obtain p w' where run: "missing_values_notebook replay (empty_world 0) = Inr (p, w')"
    and nans: "nan_positions (arrays w' (data_m p))
          = [(0, 1), (0, 2), (1, 0), (2, 3), (4, 4), (7, 2), (9, 1)]"
    and cls: "calls w' = calls (empty_world 0) @
               [DMatrix (arrays w' (data_v p)) (label p) None,
                XgbCv native_params
                  \<lparr>dm_data = arrays w' (data_v p), dm_label = label p, dm_missing = None\<rparr>
                  num_rounds seed,
                DMatrix (arrays w' (data_m p)) (label p) (Some NaN),
                XgbCv native_params
                  \<lparr>dm_data = arrays w' (data_m p), dm_label = label p, dm_missing = Some NaN\<rparr>
                  num_rounds seed,
                XGBClassifier sklearn_params,
                CrossValScore sklearn_params (arrays w' (data_v p)) (label p) 2 ''accuracy'',
                CrossValScore sklearn_params (arrays w' (data_m p)) (label p) 2 ''accuracy'']"
    by blast
  have "length (calls w') = 7"
    by (simp add: cls empty_world_def)
  moreover have "arrays w' (data_v p) = printed_data_v"
    using run
    by (auto simp: missing_values_notebook_def prepare_data_eq and_then_def sklearn_wrapper_def
        native_interface_def Let_def arrays_lib_call replay_rand split: if_splits)
  ultimately show ?thesis
    using run nans by blast
qed

section \<open>Properties of the text of the notebooks\<close>

lemma called_standard_interface:
  "called standard_interface =
     [''xgb.DMatrix'', ''xgb.DMatrix'', ''dtrain.num_row'', ''dtrain.num_col'',
      ''str.format'', ''dtest.num_row'', ''dtest.num_col'', ''str.format'',
      ''dtrain.get_label'', ''np.unique'', ''dtest.get_label'', ''np.unique'',
      ''xgb.train'', ''xgb.train'', ''bst.predict'', ''dtest.get_label'',
      ''len'', ''range'', ''len'', ''str.format'', ''len'', ''str.format'']"
  by (simp add: called_def calls_notebook_def standard_interface_def train_code_def
      predict_code_def accuracy_code_def)

lemma called_missing_values:
  "called missing_values =
     [''np.random.seed'', ''np.random.rand'', ''np.copy'', ''np.random.seed'',
      ''np.random.randint'', ''xgb.DMatrix'', ''xgb.cv'', ''xgb.DMatrix'',
      ''xgb.cv'', ''XGBClassifier'', ''cross_val_score'', ''cross_val_score'']"
  by (simp add: called_def calls_notebook_def missing_values_def nan_store_def)

lemma sequencing_missing_values: "sequencing_notebook missing_values"
  by (simp add: missing_values_def nan_store_def)

lemma not_sequencing_accuracy_code: "\<not> sequencing_cell accuracy_code"
  by (simp add: accuracy_code_def)

text \<open>
  Claim C1, as stated, fails: it is not the case that every cell of both notebooks only
  sequences library calls and prints or displays their results. The accuracy cell of the
  standard-interface notebook has a loop and arithmetic of its own.
\<close>

theorem accuracy_code_computes:
  "\<not> (sequencing_notebook standard_interface \<and> sequencing_notebook missing_values)"
  by (simp add: standard_interface_def not_sequencing_accuracy_code)

text \<open>
  Claim C1, amended. The accuracy cell is the only cell of the standard-interface
  notebook that does more than sequence library calls and print or display their results,
  and the missing-values notebook has no such cell.
\<close>

theorem sequencing_except_accuracy:
  "filter (\<lambda>c. \<not> sequencing_cell c) standard_interface = [accuracy_code]
   \<and> filter (\<lambda>c. \<not> sequencing_cell c) missing_values = []"
proof -
  have "sequencing_cell train_code" "sequencing_cell predict_code"
    by (simp_all add: train_code_def predict_code_def)
  then have "filter (\<lambda>c. \<not> sequencing_cell c) standard_interface = [accuracy_code]"
    by (simp add: standard_interface_def not_sequencing_accuracy_code)
  moreover have "filter (\<lambda>c. \<not> sequencing_cell c) missing_values = []"
    by (simp add: missing_values_def nan_store_def)
  ultimately show ?thesis
    by simp
qed

section \<open>Properties of running cells\<close>

lemma propagates_attempt:
  "propagates raises n r \<Longrightarrow> propagates raises n (attempt raises n k r)"
  by (cases r) (auto simp: propagates_def attempt_def nth_append less_Suc_eq split: option.splits)

lemma propagates_append:
  "propagates raises n (t, None) \<Longrightarrow> propagates raises (n + length t) (t', r) \<Longrightarrow>
   propagates raises n (t @ t', r)"
proof -
  assume a: "propagates raises n (t, None)" and b: "propagates raises (n + length t) (t', r)"
  have "r = Some e" if "i < length (t @ t')" "raises (n + i) ((t @ t') ! i) = Some e" for i e
  proof (cases "i < length t")
    case True
    with a that show ?thesis by (auto simp: propagates_def nth_append)
  next
    case False
    then have "i - length t < length t'" "n + length t + (i - length t) = n + i"
      using that(1) by auto
    with b that False show ?thesis
      unfolding propagates_def by (metis fst_conv snd_conv nth_append)
  qed
  then show ?thesis
    by (simp add: propagates_def)
qed

lemma propagates_after:
  "propagates raises n r1 \<Longrightarrow> propagates raises (later n r1) r2 \<Longrightarrow>
   propagates raises n (after r1 r2)"
proof (cases r1)
  case (Pair t x)
  assume a: "propagates raises n r1" and b: "propagates raises (later n r1) r2"
  show ?thesis
  proof (cases x)
    case None
    have "propagates raises n (t @ fst r2, snd r2)"
      using a b Pair None propagates_append [of raises n t "fst r2" "snd r2"]
      by (simp add: later_def)
    then show ?thesis
      by (simp add: after_def Pair None)
  next
    case (Some e)
    then show ?thesis
      using a by (simp add: after_def Pair)
  qed
qed

lemma propagates_empty: "propagates raises n ([], r)"
  by (simp add: propagates_def)

lemma propagates_eval:
  "propagates raises n (eval raises n ns e)" "propagates raises n (evals raises n ns es)"
  by (induction raises n ns e and raises n ns es rule: eval_evals.induct)
    (simp_all add: propagates_attempt propagates_after propagates_empty)

lemma propagates_bind_name:
  "propagates raises n r \<Longrightarrow> propagates raises n (snd (bind_name x ns r))"
  by (cases r) (auto simp: bind_name_def split: option.splits)

lemma propagates_no_bind:
  "propagates raises n r \<Longrightarrow> propagates raises n (snd (no_bind ns r))"
  by (simp add: no_bind_def)

lemma propagates_store:
  "propagates raises n r \<Longrightarrow> propagates raises n (snd (store raises n ns target r))"
  by (cases target)
    (auto intro!: propagates_bind_name propagates_no_bind propagates_attempt propagates_after
      propagates_eval propagates_empty)

lemma propagates_exec_simple: "propagates raises n (snd (exec_simple raises n ns s))"
  by (cases s)
    (auto intro!: propagates_bind_name propagates_no_bind propagates_store propagates_attempt
      propagates_after propagates_eval propagates_empty)

lemma propagates_exec:
  "exec raises n ns s out \<Longrightarrow> handler_free s \<Longrightarrow> propagates raises n (snd out)"
  "execs raises n ns ss out \<Longrightarrow> handler_free_block ss \<Longrightarrow> propagates raises n (snd out)"
  "iterate raises n ns ss out \<Longrightarrow> handler_free_block ss \<Longrightarrow> propagates raises n (snd out)"
proof (induction rule: exec_execs_iterate.inducts)
  case (exec_Simple n ns s out)
  then show ?case using propagates_exec_simple [of raises n ns s] by simp
next
  case (exec_For_raise n ns it t e x body)
  then show ?case using propagates_eval(1) [of raises n ns it] by simp
next
  case (exec_For_empty n ns it t x body)
  then show ?case using propagates_eval(1) [of raises n ns it] by simp
next
  case (exec_For_iterate n ns it t x body ns' t' r)
  then show ?case using propagates_eval(1) [of raises n ns it] by (simp add: propagates_append)
next
  case (exec_If_raise n ns c t e yes no)
  then show ?case using propagates_eval(1) [of raises n ns c] by simp
next
  case (exec_If_yes n ns c t yes ns' t' r no)
  then show ?case using propagates_eval(1) [of raises n ns c] by (simp add: propagates_append)
next
  case (exec_If_no n ns c t no ns' t' r yes)
  then show ?case using propagates_eval(1) [of raises n ns c] by (simp add: propagates_append)
next
  case (execs_Nil n ns)
  show ?case by (simp add: propagates_empty)
next
  case (execs_next n ns s ns' t ss ns'' t' r)
  then show ?case by (simp add: propagates_append)
next
  case (iterate_more n ns body ns' t ns'' t' r)
  then show ?case by (simp add: propagates_append)
qed simp_all

lemma handler_free_standard_interface: "handler_free_notebook standard_interface"
  by (simp add: standard_interface_def train_code_def predict_code_def accuracy_code_def)

lemma handler_free_missing_values: "handler_free_notebook missing_values"
  by (simp add: missing_values_def nan_store_def)

lemma handler_free_member:
  "handler_free_notebook nb \<Longrightarrow> c \<in> set nb \<Longrightarrow> handler_free_block c"
  by (induction nb) auto

inductive_cases exec_SimpleE: "exec raises n ns (Simple s) out"

inductive_cases execs_NilE: "execs raises n ns [] out"

inductive_cases execs_ConsE: "execs raises n ns (s # ss) out"

inductive_cases run_NilE: "run raises n ns [] outs"

inductive_cases run_ConsE: "run raises n ns (c # cs) outs"

lemma exec_Simple_iff: "exec raises n ns (Simple s) out \<longleftrightarrow> out = exec_simple raises n ns s"
  by (auto elim: exec_SimpleE intro: exec_Simple)

lemma execs_Nil_iff: "execs raises n ns [] out \<longleftrightarrow> out = (ns, [], None)"
  by (auto elim: execs_NilE intro: execs_Nil)

lemma execs_Cons_iff:
  "execs raises n ns (Simple s # ss) out \<longleftrightarrow>
     (if snd (snd (exec_simple raises n ns s)) = None
      then \<exists>out'. execs raises (n + length (fst (snd (exec_simple raises n ns s))))
                     (fst (exec_simple raises n ns s)) ss out'
             \<and> out = (fst out', fst (snd (exec_simple raises n ns s)) @ fst (snd out'),
                      snd (snd out'))
      else out = exec_simple raises n ns s)"
proof (cases "exec_simple raises n ns s")
  case (fields ns' t r)
  show ?thesis
  proof (cases r)
    case None
    have "execs raises n ns (Simple s # ss) (fst out', t @ fst (snd out'), snd (snd out'))"
      if "execs raises (n + length t) ns' ss out'" for out'
      using execs_next [of raises n ns "Simple s" ns' t ss "fst out'" "fst (snd out')" "snd (snd out')"]
        that by (simp add: exec_Simple_iff fields None)
    then show ?thesis
      by (auto elim!: execs_ConsE simp: exec_Simple_iff fields None)
  next
    case (Some e)
    have bwd: "execs raises n ns (Simple s # ss) (ns', t, Some e)"
      by (rule execs_raise) (simp add: exec_Simple_iff fields Some)
    have fwd: "out = (ns', t, Some e)" if "execs raises n ns (Simple s # ss) out"
      using that by (auto elim!: execs_ConsE simp: exec_Simple_iff fields Some)
    show ?thesis
      using fwd bwd by (auto simp: fields Some)
  qed
qed

lemma run_Nil_iff: "run raises n ns [] outs \<longleftrightarrow> outs = []"
  by (auto elim: run_NilE intro: run_Nil)

lemma run_Cons_iff:
  "run raises n ns (c # cs) outs \<longleftrightarrow>
     (\<exists>ns' t r outs'. execs raises n ns c (ns', t, r) \<and> run raises (n + length t) ns' cs outs'
        \<and> outs = (t, r) # outs')"
  by (auto elim!: run_ConsE intro: run_Cons)

lemmas exec_unfold =
  run_Cons_iff run_Nil_iff execs_Cons_iff execs_Nil_iff bind_name_def no_bind_def
  attempt_def after_def later_def

lemma run_until_predict:
  assumes "raises = (\<lambda>k op. if op = ''xgb.train'' then Some e else None)"
  shows "run raises 0 builtins (take 9 standard_interface) outs \<longleftrightarrow>
     outs = [([''import numpy'', ''import xgboost''], None),
      ([''xgb.DMatrix'', ''xgb.DMatrix''], None),
      ([], None),
      ([''dtrain.num_row'', ''dtrain.num_col'', ''str.format'',
        ''dtest.num_row'', ''dtest.num_col'', ''str.format''], None),
      ([''dtrain.get_label'', ''np.unique'', ''dtest.get_label'', ''np.unique''], None),
      ([], None),
      ([''xgb.train''], Some e),
      ([''xgb.train''], Some e),
      ([], Some (NameError ''bst''))]"
  unfolding assms
  by (simp add: standard_interface_def train_code_def predict_code_def builtins_def exec_unfold)



section \<open>The operations the notebooks exercise\<close>

lemma failure_free_standard_interface:
  "run no_failures 0 builtins (take 9 standard_interface) outs \<longleftrightarrow>
     outs = [([''import numpy'', ''import xgboost''], None),
      ([''xgb.DMatrix'', ''xgb.DMatrix''], None),
      ([], None),
      ([''dtrain.num_row'', ''dtrain.num_col'', ''str.format'',
        ''dtest.num_row'', ''dtest.num_col'', ''str.format''], None),
      ([''dtrain.get_label'', ''np.unique'', ''dtest.get_label'', ''np.unique''], None),
      ([], None),
      ([''xgb.train''], None),
      ([''xgb.train''], None),
      ([''bst.predict''], None)]"
  by (simp add: no_failures_def standard_interface_def train_code_def predict_code_def
      builtins_def exec_unfold)

lemma failure_free_missing_values:
  "run no_failures 0 builtins missing_values outs \<longleftrightarrow>
     outs = [([''import numpy'', ''import xgboost'', ''import xgboost.sklearn'',
        ''import sklearn.cross_validation''], None),
      ([''np.random.seed'', ''np.random.rand''], None),
      ([''np.copy'', ''data_m[]='', ''data_m[]='', ''data_m[]='', ''data_m[]='',
        ''data_m[]='', ''data_m[]='', ''data_m[]=''], None),
      ([''np.random.seed'', ''np.random.randint''], None),
      ([], None),
      ([''xgb.DMatrix''], None),
      ([''xgb.cv''], None),
      ([''xgb.DMatrix''], None),
      ([''xgb.cv''], None),
      ([], None),
      ([''XGBClassifier''], None),
      ([''cross_val_score''], None),
      ([''cross_val_score''], None)]"
  by (simp add: no_failures_def missing_values_def nan_store_def builtins_def exec_unfold)


end
